theory Spec2Isabelle
  imports Complex_Main
begin

section \<open>Python strings and numbers\<close>

text \<open>
  The extractor of \<^verbatim>\<open>get_data.py\<close> works on Python \<^verbatim>\<open>str\<close> and \<^verbatim>\<open>float\<close> values.
  Strings are modelled as \<^typ>\<open>string\<close> restricted to ASCII text: the character classes
  below (\<^verbatim>\<open>\d\<close>, \<^verbatim>\<open>\s\<close>, \<^verbatim>\<open>isalpha\<close>, \<^verbatim>\<open>upper\<close>, \<^verbatim>\<open>lower\<close>) are Python's classes on
  code points below 128; a character above 127 is treated as caseless and as belonging to no
  class. A \<^verbatim>\<open>float\<close> is modelled by the exact rational number that its decimal text
  denotes: rounding to the nearest double, overflow to \<^verbatim>\<open>inf\<close> and underflow to zero are
  outside the model.
\<close>

datatype exn = ValueError | TypeError | KeyError | ZeroDivisionError

definition is_digit :: "char \<Rightarrow> bool" where
  "is_digit c = (c \<in> set ''0123456789'')"

definition digit_val :: "char \<Rightarrow> nat" where
  "digit_val c = of_char c - 48"

definition is_space :: "char \<Rightarrow> bool" where
  "is_space c = (c \<in> set [CHR '' '', CHR 0x09, CHR 0x0A, CHR 0x0B, CHR 0x0C, CHR 0x0D,
                            CHR 0x1C, CHR 0x1D, CHR 0x1E, CHR 0x1F])"

definition ascii_lowercase :: string where
  "ascii_lowercase = ''abcdefghijklmnopqrstuvwxyz''"

definition ascii_uppercase :: string where
  "ascii_uppercase = ''ABCDEFGHIJKLMNOPQRSTUVWXYZ''"

definition upper_char :: "char \<Rightarrow> char" where
  "upper_char c = (case map_of (zip ascii_lowercase ascii_uppercase) c of Some u \<Rightarrow> u | None \<Rightarrow> c)"

definition lower_char :: "char \<Rightarrow> char" where
  "lower_char c = (case map_of (zip ascii_uppercase ascii_lowercase) c of Some l \<Rightarrow> l | None \<Rightarrow> c)"

definition upper :: "string \<Rightarrow> string" where
  "upper s = map upper_char s"

definition lower :: "string \<Rightarrow> string" where
  "lower s = map lower_char s"

text \<open>\<^verbatim>\<open>s.isalpha()\<close>: every character is a letter and there is at least one.\<close>

definition isalpha :: "string \<Rightarrow> bool" where
  "isalpha s = (0 < length s \<and> list_all (\<lambda>c. c \<in> set (ascii_lowercase @ ascii_uppercase)) s)"

text \<open>\<^verbatim>\<open>s.strip()\<close>\<close>

definition strip :: "string \<Rightarrow> string" where
  "strip s = rev (dropWhile is_space (rev (dropWhile is_space s)))"

text \<open>\<^verbatim>\<open>s.startswith(p)\<close> and the substring test \<^verbatim>\<open>sub in s\<close>\<close>

fun startswith :: "string \<Rightarrow> string \<Rightarrow> bool" where
  "startswith s [] = True"
| "startswith [] (p # ps) = False"
| "startswith (c # cs) (p # ps) = (c = p \<and> startswith cs ps)"

fun py_in :: "string \<Rightarrow> string \<Rightarrow> bool" where
  "py_in sub [] = (sub = [])"
| "py_in sub (c # cs) = (startswith (c # cs) sub \<or> py_in sub cs)"

text \<open>\<^verbatim>\<open>sep.join(xs)\<close>\<close>

fun join :: "string \<Rightarrow> string list \<Rightarrow> string" where
  "join sep [] = []"
| "join sep [x] = x"
| "join sep (x # y # ys) = x @ sep @ join sep (y # ys)"

text \<open>
  The value of a run of decimal digits, and \<^verbatim>\<open>float(s)\<close>. Every caller in the extractor
  passes a string made of digits, \<^verbatim>\<open>.\<close> and \<^verbatim>\<open>-\<close> only (a text that went through
  \<^verbatim>\<open>re.sub(r'[^\d.-]', '', s)\<close>, or a match of \<^verbatim>\<open>\d+\.?\d*\<close>), so \<open>py_float\<close> is Python's
  \<^verbatim>\<open>float\<close> on that alphabet: an optional leading minus sign, then digits with at most
  one decimal point and at least one digit; anything else raises \<^verbatim>\<open>ValueError\<close>.
\<close>

definition digits_val :: "string \<Rightarrow> nat" where
  "digits_val ds = foldl (\<lambda>n c. 10 * n + digit_val c) 0 ds"

definition unsigned_float :: "string \<Rightarrow> exn + rat" where
  "unsigned_float body =
     (let ip = takeWhile is_digit body; r = dropWhile is_digit body
      in case r of
           [] \<Rightarrow> if ip = [] then Inl ValueError else Inr (of_nat (digits_val ip))
         | c # fd \<Rightarrow>
             if c = CHR ''.'' \<and> list_all is_digit fd \<and> 0 < length ip + length fd
             then Inr (of_nat (digits_val (ip @ fd)) / 10 ^ length fd)
             else Inl ValueError)"

definition py_float :: "string \<Rightarrow> exn + rat" where
  "py_float s =
     (case s of
        [] \<Rightarrow> Inl ValueError
      | c # t \<Rightarrow>
          if c = CHR ''-'' then map_sum id uminus (unsigned_float t) else unsigned_float s)"

section \<open>Value normalizer\<close>

text \<open>The literal list \<^verbatim>\<open>['N/A', 'NA', '--', '', 'NULL']\<close> of both cleaning functions.\<close>

definition unavailable :: "string list" where
  "unavailable = [''N/A'', ''NA'', ''--'', '''', ''NULL'']"

text \<open>The characters that \<^verbatim>\<open>re.sub(r'[^\d.-]', '', s)\<close> keeps.\<close>

definition numeric_char :: "char \<Rightarrow> bool" where
  "numeric_char c = (is_digit c \<or> c = CHR ''.'' \<or> c = CHR ''-'')"

text \<open>
  \<^verbatim>\<open>_clean_numeric_value\<close>, with what it raises: the handler catches \<^verbatim>\<open>ValueError\<close> and
  \<^verbatim>\<open>TypeError\<close> only, so another exception of \<^verbatim>\<open>float\<close> would propagate as \<open>Inl\<close>.
\<close>

definition clean_numeric_value :: "string \<Rightarrow> exn + rat option" where
  "clean_numeric_value v =
     (if v = [] \<or> upper v \<in> set unavailable then Inr None
      else
        let cleaned = filter numeric_char v
        in if cleaned \<noteq> [] \<and> cleaned \<notin> set [''-'', ''.'', ''-.'']
           then (case py_float cleaned of
                   Inr x \<Rightarrow> Inr (Some x)
                 | Inl e \<Rightarrow> if e = ValueError \<or> e = TypeError then Inr None else Inl e)
           else Inr None)"

text \<open>\<^verbatim>\<open>_clean_percentage_value\<close> has the same body.\<close>

definition clean_percentage_value :: "string \<Rightarrow> exn + rat option" where
  "clean_percentage_value v =
     (if v = [] \<or> upper v \<in> set unavailable then Inr None
      else
        let cleaned = filter numeric_char v
        in if cleaned \<noteq> [] \<and> cleaned \<notin> set [''-'', ''.'', ''-.'']
           then (case py_float cleaned of
                   Inr x \<Rightarrow> Inr (Some x)
                 | Inl e \<Rightarrow> if e = ValueError \<or> e = TypeError then Inr None else Inl e)
           else Inr None)"

text \<open>
  A decimal literal, stated on its own: a sign, an integer part, an optional point and a
  fraction part, with at least one digit; and the number it denotes.
\<close>

definition decimal_text :: "bool \<Rightarrow> string \<Rightarrow> bool \<Rightarrow> string \<Rightarrow> string" where
  "decimal_text neg ip dot fd =
     (if neg then ''-'' else '''') @ ip @ (if dot then ''.'' else '''') @ fd"

definition decimal_parts :: "bool \<Rightarrow> string \<Rightarrow> bool \<Rightarrow> string \<Rightarrow> bool" where
  "decimal_parts neg ip dot fd =
     (list_all is_digit ip \<and> list_all is_digit fd \<and> (dot \<or> fd = []) \<and> 0 < length ip + length fd)"

definition decimal_value :: "bool \<Rightarrow> string \<Rightarrow> string \<Rightarrow> rat" where
  "decimal_value neg ip fd =
     (if neg then - 1 else 1) * (of_nat (digits_val (ip @ fd)) / 10 ^ length fd)"

text \<open>
  The normalizer as the specification words it: keep the digits, a minus sign only where it
  leads the kept text, and the first decimal point only; then parse.
\<close>

fun spec_strip :: "bool \<Rightarrow> bool \<Rightarrow> string \<Rightarrow> string" where
  "spec_strip started dotted [] = []"
| "spec_strip started dotted (c # cs) =
     (if is_digit c then c # spec_strip True dotted cs
      else if c = CHR ''-'' \<and> \<not> started then c # spec_strip True dotted cs
      else if c = CHR ''.'' \<and> \<not> dotted then c # spec_strip True True cs
      else spec_strip started dotted cs)"

definition spec_normalize_numeric :: "string \<Rightarrow> rat option" where
  "spec_normalize_numeric v =
     (if upper v \<in> set unavailable then None
      else
        let residual = spec_strip False False v
        in if residual \<in> set ['''', ''-'', ''.'', ''-.''] then None
           else (case py_float residual of Inr x \<Rightarrow> Some x | Inl e \<Rightarrow> None))"

section \<open>The regular expressions of the extractor\<close>

text \<open>
  Each pattern of the source is modelled by the matcher that Python's \<^verbatim>\<open>re\<close> module
  computes for it. The token \<^verbatim>\<open>\d+\.?\d*\<close> is matched greedily; in every pattern below a
  shorter match of the token would be followed by a digit or a point, which no
  continuation of these patterns accepts, so backtracking never finds another match
  (lemmas \<open>number_token_complete\<close> and \<open>dividend_match_complete\<close>).
\<close>

text \<open>\<^verbatim>\<open>\d+\.?\d*\<close> at the start of a string: the match and the rest of the string.\<close>

definition number_token :: "string \<Rightarrow> (string \<times> string) option" where
  "number_token s =
     (let d1 = takeWhile is_digit s; r1 = dropWhile is_digit s
      in if d1 = [] then None
         else (case r1 of
                 [] \<Rightarrow> Some (d1, [])
               | c # r2 \<Rightarrow>
                   if c = CHR ''.''
                   then Some (d1 @ ''.'' @ takeWhile is_digit r2, dropWhile is_digit r2)
                   else Some (d1, r1)))"

text \<open>\<^verbatim>\<open>\d+\.?\d*%\<close> at the start of a string.\<close>

definition percent_token :: "string \<Rightarrow> (string \<times> string) option" where
  "percent_token s =
     (case number_token s of
        None \<Rightarrow> None
      | Some (t, r) \<Rightarrow>
          (case r of
             [] \<Rightarrow> None
           | c # r' \<Rightarrow> if c = CHR ''%'' then Some (t @ ''%'', r') else None))"

text \<open>
  \<^verbatim>\<open>re.findall\<close>: the matches from left to right, each search resuming where the last match
  ended, or one character further where there is no match. A match of the two tokens is
  never empty (lemma \<open>token_shorter\<close>), so the rest is shorter than the string; the test
  on the lengths only makes the recursion terminate for any matcher.
\<close>

function findall :: "(string \<Rightarrow> (string \<times> string) option) \<Rightarrow> string \<Rightarrow> string list" where
  "findall tok [] = []"
| "findall tok (c # cs) =
     (case tok (c # cs) of
        None \<Rightarrow> findall tok cs
      | Some (t, r) \<Rightarrow>
          if length r < length (c # cs) then t # findall tok r else t # findall tok cs)"
  by pat_completeness auto
termination
  by (relation "measure (\<lambda>(tok, s). length s)") auto

definition findall_number :: "string \<Rightarrow> string list" where
  "findall_number s = findall number_token s"

definition findall_percent :: "string \<Rightarrow> string list" where
  "findall_percent s = findall percent_token s"

text \<open>
  \<^verbatim>\<open>(\d+\.?\d*)\s*\((\d+\.?\d*%?)\)\<close> at the start of a string: the two groups.
\<close>

definition dividend_match :: "string \<Rightarrow> (string \<times> string) option" where
  "dividend_match s =
     (case number_token s of
        None \<Rightarrow> None
      | Some (g1, r) \<Rightarrow>
          (case dropWhile is_space r of
             [] \<Rightarrow> None
           | c # r2 \<Rightarrow>
               if c = CHR ''(''
               then (case number_token r2 of
                       None \<Rightarrow> None
                     | Some (n2, r3) \<Rightarrow>
                         if startswith r3 ''%)'' then Some (g1, n2 @ ''%'')
                         else if startswith r3 '')'' then Some (g1, n2)
                         else None)
               else None))"

text \<open>\<^verbatim>\<open>re.search\<close>: the match at the leftmost position that has one.\<close>

fun dividend_search :: "string \<Rightarrow> (string \<times> string) option" where
  "dividend_search [] = None"
| "dividend_search (c # cs) =
     (case dividend_match (c # cs) of
        Some g \<Rightarrow> Some g
      | None \<Rightarrow> dividend_search cs)"

text \<open>
  \<^verbatim>\<open>^\d{1,4}\.\d{2}$\<close>, as \<^verbatim>\<open>re.match\<close> and \<^verbatim>\<open>search\<close> decide it: one to four digits, a
  point, two digits, and then the end of the string or one final newline.
\<close>

definition price_format :: "string \<Rightarrow> bool" where
  "price_format s =
     (let d = takeWhile is_digit s; r = dropWhile is_digit s
      in 1 \<le> length d \<and> length d \<le> 4 \<and>
         (case r of
            c # a # b # e \<Rightarrow>
              c = CHR ''.'' \<and> is_digit a \<and> is_digit b \<and> (e = [] \<or> e = [CHR 0x0A])
          | _ \<Rightarrow> False))"

text \<open>The languages of the token and of the second group, stated on their own.\<close>

definition number_lang :: "string \<Rightarrow> bool" where
  "number_lang t =
     (\<exists>d1 dot d2. t = d1 @ (if dot then ''.'' else '''') @ d2 \<and> 0 < length d1 \<and>
         list_all is_digit d1 \<and> list_all is_digit d2 \<and> (dot \<or> d2 = []))"




text \<open>The number that a matched token or group denotes; a final \<^verbatim>\<open>%\<close> does not count.\<close>

definition token_value :: "string \<Rightarrow> rat" where
  "token_value t =
     (let ip = takeWhile is_digit t; fd = filter is_digit (dropWhile is_digit t)
      in of_nat (digits_val (ip @ fd)) / 10 ^ length fd)"


section \<open>Parsed documents\<close>

text \<open>
  The tree that \<^verbatim>\<open>BeautifulSoup(response.text, 'html.parser')\<close> returns: a text node
  (\<^verbatim>\<open>NavigableString\<close>) or a tag with its name, its single-valued attributes, the list of
  its classes (the parser splits the \<^verbatim>\<open>class\<close> attribute at white space; a tag without
  the attribute has the empty list, which every use in the source treats like a missing
  attribute) and its children. The document itself is a tag named \<^verbatim>\<open>[document]\<close> without
  attributes. The parser and the comment, script and style strings it sets apart are not
  modelled.
\<close>

datatype node = Text string | Tag string "(string \<times> string) list" "string list" "node list"

fun is_tag :: "node \<Rightarrow> bool" where
  "is_tag (Text s) = False"
| "is_tag (Tag n a c ks) = True"

fun name :: "node \<Rightarrow> string" where
  "name (Text s) = []"
| "name (Tag n a c ks) = n"

text \<open>\<^verbatim>\<open>tag.get(key)\<close> for a single-valued attribute, and \<^verbatim>\<open>tag.get('class', [])\<close>.\<close>

fun get_attr :: "node \<Rightarrow> string \<Rightarrow> string option" where
  "get_attr (Text s) key = None"
| "get_attr (Tag n a c ks) key = map_of a key"

fun get_class :: "node \<Rightarrow> string list" where
  "get_class (Text s) = []"
| "get_class (Tag n a c ks) = c"

text \<open>
  \<^verbatim>\<open>tag.descendants\<close> in document order, each node with its parent (\<^verbatim>\<open>.parent\<close>).
\<close>

fun descendants :: "node \<Rightarrow> (node \<times> node) list" where
  "descendants (Text s) = []"
| "descendants (Tag n a c ks) =
     concat (map (\<lambda>k. (Tag n a c ks, k) # descendants k) ks)"

text \<open>
  \<^verbatim>\<open>find_all\<close> with a filter on tags, and \<^verbatim>\<open>find\<close>, its first result. The filters of the
  source are the predicates below.
\<close>

definition find_all_parent :: "(node \<Rightarrow> bool) \<Rightarrow> node \<Rightarrow> (node \<times> node) list" where
  "find_all_parent p t = filter (\<lambda>(parent, k). is_tag k \<and> p k) (descendants t)"

definition find_all :: "(node \<Rightarrow> bool) \<Rightarrow> node \<Rightarrow> node list" where
  "find_all p t = map snd (find_all_parent p t)"

definition find_tag :: "(node \<Rightarrow> bool) \<Rightarrow> node \<Rightarrow> node option" where
  "find_tag p t = (case find_all p t of [] \<Rightarrow> None | k # ks \<Rightarrow> Some k)"

text \<open>A tag name, one of several tag names, an exact \<^verbatim>\<open>data-testid\<close> or other attribute.\<close>

definition named :: "string \<Rightarrow> node \<Rightarrow> bool" where
  "named n k = (name k = n)"

definition named_in :: "string list \<Rightarrow> node \<Rightarrow> bool" where
  "named_in ns k = (name k \<in> set ns)"

definition has_attr :: "string \<Rightarrow> string \<Rightarrow> node \<Rightarrow> bool" where
  "has_attr key v k = (get_attr k key = Some v)"

text \<open>
  An attribute filter that is a function: it receives the attribute's value, or
  \<^verbatim>\<open>None\<close> for a missing attribute, which both lambdas of the source reject
  (\<^verbatim>\<open>x and ...\<close>), as they reject the empty string.
\<close>

definition attr_where :: "string \<Rightarrow> (string \<Rightarrow> bool) \<Rightarrow> node \<Rightarrow> bool" where
  "attr_where key f k = (case get_attr k key of None \<Rightarrow> False | Some v \<Rightarrow> v \<noteq> [] \<and> f v)"

text \<open>
  A \<^verbatim>\<open>class_\<close> filter that is a function: it is tried on every class of the tag and then
  on the classes joined by spaces.
\<close>

definition class_where :: "(string \<Rightarrow> bool) \<Rightarrow> node \<Rightarrow> bool" where
  "class_where f k =
     (list_ex (\<lambda>c. c \<noteq> [] \<and> f c) (get_class k) \<or>
      (join '' '' (get_class k) \<noteq> [] \<and> f (join '' '' (get_class k))))"

text \<open>
  \<^verbatim>\<open>get_text()\<close> joins all strings below a node; \<^verbatim>\<open>get_text(strip=True)\<close> strips each
  string first and leaves out the empty ones.
\<close>

fun all_strings :: "node \<Rightarrow> string list" where
  "all_strings (Text s) = [s]"
| "all_strings (Tag n a c ks) = concat (map all_strings ks)"

definition get_text :: "node \<Rightarrow> string" where
  "get_text k = concat (all_strings k)"

definition get_text_strip :: "node \<Rightarrow> string" where
  "get_text_strip k = concat (filter (\<lambda>s. s \<noteq> []) (map strip (all_strings k)))"

text \<open>
  \<^verbatim>\<open>tag.string\<close>: the text of a tag with exactly one child that is a text or again such
  a tag.
\<close>

fun tag_string :: "node \<Rightarrow> string option" where
  "tag_string (Text s) = Some s"
| "tag_string (Tag n a c [k]) = tag_string k"
| "tag_string (Tag n a c ks) = None"

text \<open>The first result of a loop body that returns from the function when it succeeds.\<close>

fun first_some :: "('a \<Rightarrow> 'b option) \<Rightarrow> 'a list \<Rightarrow> 'b option" where
  "first_some f [] = None"
| "first_some f (x # xs) = (case f x of Some y \<Rightarrow> Some y | None \<Rightarrow> first_some f xs)"


section \<open>The metrics dictionary\<close>

text \<open>
  A metrics dictionary maps the keys of the source (\<^verbatim>\<open>'current_price'\<close>,
  \<^verbatim>\<open>'pe_ratio_ttm'\<close>, ...) to \<^verbatim>\<open>None\<close>, a number or a string. A key can be missing: the
  dictionary of the summary phase starts empty.
\<close>

datatype pyval = PNone | PNum rat | PStr string

type_synonym pydict = "string \<rightharpoonup> pyval"

fun truthy :: "pyval \<Rightarrow> bool" where
  "truthy PNone = False"
| "truthy (PNum x) = (x \<noteq> 0)"
| "truthy (PStr s) = (s \<noteq> [])"

text \<open>\<^verbatim>\<open>d.get(key)\<close> and an \<^verbatim>\<open>Optional[float]\<close> stored as a value.\<close>

definition dict_get :: "pydict \<Rightarrow> string \<Rightarrow> pyval" where
  "dict_get d key = (case d key of None \<Rightarrow> PNone | Some v \<Rightarrow> v)"

fun of_option :: "rat option \<Rightarrow> pyval" where
  "of_option None = PNone"
| "of_option (Some x) = PNum x"

text \<open>
  The two cleaning functions as their callers see them. They never raise (lemma
  \<open>clean_numeric_value_float\<close>), so no handler of a caller is entered through them.
\<close>

definition clean_numeric :: "string \<Rightarrow> rat option" where
  "clean_numeric v = (case clean_numeric_value v of Inr r \<Rightarrow> r | Inl e \<Rightarrow> None)"

definition clean_percentage :: "string \<Rightarrow> rat option" where
  "clean_percentage v = (case clean_percentage_value v of Inr r \<Rightarrow> r | Inl e \<Rightarrow> None)"

section \<open>Field locators\<close>

subsection \<open>\<^verbatim>\<open>_parse_dividend_info\<close>\<close>

text \<open>
  An exception inside the \<^verbatim>\<open>try\<close> block is printed and the dictionary stays as it was
  when the exception was raised.
\<close>

definition parse_dividend_info :: "string \<Rightarrow> pydict \<Rightarrow> pydict" where
  "parse_dividend_info dividend_text metrics =
     (case dividend_search dividend_text of
        Some (g1, g2) \<Rightarrow>
          (case py_float g1 of
             Inl e \<Rightarrow> metrics
           | Inr rate \<Rightarrow>
               (metrics(''forward_dividend_rate'' \<mapsto> PNum rate))
                 (''forward_dividend_yield'' \<mapsto> of_option (clean_percentage g2)))
      | None \<Rightarrow>
          (let numbers = findall_number dividend_text;
               percentages = findall_percent dividend_text
           in case (if numbers \<noteq> [] \<and> \<not> truthy (dict_get metrics ''forward_dividend_rate'')
                    then (case py_float (hd numbers) of
                            Inl e \<Rightarrow> Inl e
                          | Inr rate \<Rightarrow> Inr (metrics(''forward_dividend_rate'' \<mapsto> PNum rate)))
                    else Inr metrics) of
                Inl e \<Rightarrow> metrics
              | Inr metrics1 \<Rightarrow>
                  if percentages \<noteq> [] \<and> \<not> truthy (dict_get metrics1 ''forward_dividend_yield'')
                  then metrics1(''forward_dividend_yield'' \<mapsto>
                                  of_option (clean_percentage (hd percentages)))
                  else metrics1))"

subsection \<open>\<^verbatim>\<open>_extract_current_price\<close>\<close>

text \<open>\<^verbatim>\<open>price and price > bound\<close> for a cleaned price.\<close>

definition accept_above :: "rat \<Rightarrow> rat option \<Rightarrow> rat option" where
  "accept_above bound price =
     (case price of
        None \<Rightarrow> None
      | Some p \<Rightarrow> if p \<noteq> 0 \<and> p > bound then Some p else None)"

text \<open>Method 1: the span with \<^verbatim>\<open>data-testid="qsp-price"\<close>.\<close>

definition price_method1 :: "node \<Rightarrow> rat option" where
  "price_method1 soup =
     (case find_tag (\<lambda>k. named ''span'' k \<and> has_attr ''data-testid'' ''qsp-price'' k) soup of
        None \<Rightarrow> None
      | Some price_element \<Rightarrow> accept_above 0 (clean_numeric (get_text_strip price_element)))"

text \<open>Method 2: \<^verbatim>\<open>fin-streamer\<close> elements with \<^verbatim>\<open>data-field="regularMarketPrice"\<close>.\<close>

definition streamer_value :: "node \<Rightarrow> string" where
  "streamer_value element =
     (case get_attr element ''value'' of
        None \<Rightarrow> get_text_strip element
      | Some v \<Rightarrow> if v \<noteq> [] then v else get_text_strip element)"

definition price_method2 :: "node \<Rightarrow> rat option" where
  "price_method2 soup =
     first_some
       (\<lambda>element.
          let v = streamer_value element
          in if v \<noteq> [] then accept_above 0 (clean_numeric v) else None)
       (find_all (\<lambda>k. named ''fin-streamer'' k \<and> has_attr ''data-field'' ''regularMarketPrice'' k)
          soup)"

text \<open>Methods 3 and 4 share the loop over spans.\<close>

definition price_span :: "node \<Rightarrow> rat option" where
  "price_span sp =
     (let text = get_text_strip sp
      in if price_format text then accept_above 1 (clean_numeric text) else None)"

definition price_class :: "string \<Rightarrow> bool" where
  "price_class x = (py_in ''price'' (lower x) \<or> py_in ''qsp'' (lower x))"

definition price_method3 :: "node \<Rightarrow> rat option" where
  "price_method3 soup =
     (case find_tag (\<lambda>k. named ''section'' k \<and> has_attr ''data-testid'' ''quote-price'' k) soup of
        None \<Rightarrow> None
      | Some quote_price_section \<Rightarrow>
          first_some price_span
            (find_all (\<lambda>k. named ''span'' k \<and> class_where price_class k) quote_price_section))"

definition quote_header :: "node \<Rightarrow> node option" where
  "quote_header soup =
     (case find_tag (\<lambda>k. named ''div'' k \<and> has_attr ''data-testid'' ''quote-header'' k) soup of
        Some h \<Rightarrow> Some h
      | None \<Rightarrow> find_tag (\<lambda>k. named ''section'' k \<and> has_attr ''data-testid'' ''quote-hdr'' k) soup)"

definition price_method4 :: "node \<Rightarrow> rat option" where
  "price_method4 soup =
     (case quote_header soup of
        None \<Rightarrow> None
      | Some h \<Rightarrow> first_some price_span (find_all (named ''span'') h))"

text \<open>
  Method 5: every span or div whose \<^verbatim>\<open>.string\<close> has the price format, accepted through
  the \<^verbatim>\<open>data-testid\<close> and the classes of its parent.
\<close>

definition price_keywords :: "string list" where
  "price_keywords = [''price'', ''quote'', ''market'']"

definition parent_attrs :: "node \<Rightarrow> string" where
  "parent_attrs parent =
     (case get_attr parent ''data-testid'' of None \<Rightarrow> [] | Some v \<Rightarrow> v)
       @ '' '' @ join '' '' (get_class parent)"

definition parent_identified :: "node \<Rightarrow> bool" where
  "parent_identified parent =
     ((case get_attr parent ''data-testid'' of None \<Rightarrow> False | Some v \<Rightarrow> v \<noteq> [])
      \<or> get_class parent \<noteq> [])"

definition fallback_element :: "node \<times> node \<Rightarrow> rat option" where
  "fallback_element pe =
     (case pe of (parent, element) \<Rightarrow>
        (case accept_above 1 (clean_numeric (get_text_strip element)) of
           None \<Rightarrow> None
         | Some price \<Rightarrow>
             if parent_identified parent
             then if list_ex (\<lambda>keyword. py_in keyword (lower (parent_attrs parent))) price_keywords
                  then Some price else None
             else None))"

definition string_matches :: "(string \<Rightarrow> bool) \<Rightarrow> node \<Rightarrow> bool" where
  "string_matches p k = (case tag_string k of None \<Rightarrow> False | Some s \<Rightarrow> p s)"

definition price_method5 :: "node \<Rightarrow> rat option" where
  "price_method5 soup =
     first_some fallback_element
       (find_all_parent (\<lambda>k. named_in [''span'', ''div''] k \<and> string_matches price_format k) soup)"

definition price_methods :: "(node \<Rightarrow> rat option) list" where
  "price_methods = [price_method1, price_method2, price_method3, price_method4, price_method5]"

definition extract_current_price :: "node \<Rightarrow> pydict \<Rightarrow> pydict" where
  "extract_current_price soup metrics =
     (case first_some (\<lambda>method. method soup) price_methods of
        None \<Rightarrow> metrics
      | Some price \<Rightarrow> metrics(''current_price'' \<mapsto> PNum price))"

subsection \<open>\<^verbatim>\<open>_extract_by_testid\<close>\<close>

definition test_ids :: "(string \<times> string) list" where
  "test_ids =
     [(''PE_RATIO-value'', ''pe_ratio_ttm''),
      (''FORWARD_DIVIDEND_AND_YIELD-value'', ''forward_dividend_yield''),
      (''TD_DIVIDEND_AND_YIELD-value'', ''forward_dividend_yield'')]"

definition by_testid_step :: "node \<Rightarrow> pydict \<Rightarrow> string \<times> string \<Rightarrow> pydict" where
  "by_testid_step soup metrics entry =
     (case entry of (test_id, metric_key) \<Rightarrow>
        (case find_tag (has_attr ''data-testid'' test_id) soup of
           None \<Rightarrow> metrics
         | Some element \<Rightarrow>
             (let v = get_text_strip element
              in if v \<noteq> [] \<and> upper v \<notin> set [''N/A'', ''NA'', ''--'']
                 then if metric_key = ''forward_dividend_yield''
                      then parse_dividend_info v metrics
                      else if metric_key = ''pe_ratio_ttm''
                      then metrics(metric_key \<mapsto> of_option (clean_numeric v))
                      else metrics
                 else metrics)))"

definition extract_by_testid :: "node \<Rightarrow> pydict \<Rightarrow> pydict" where
  "extract_by_testid soup metrics = foldl (by_testid_step soup) metrics test_ids"

subsection \<open>\<^verbatim>\<open>_extract_from_quote_stats\<close>\<close>

definition stats_sections :: "node \<Rightarrow> node list" where
  "stats_sections soup =
     (let sections =
            find_all (\<lambda>k. named ''div'' k \<and>
                           attr_where ''data-testid'' (\<lambda>x. py_in ''quote'' x \<and> py_in ''stat'' x) k)
              soup
      in if sections = []
         then find_all (\<lambda>k. named ''section'' k \<and> class_where (\<lambda>x. py_in ''quote'' (lower x)) k)
                soup
         else sections)"

definition quote_stats_item :: "pydict \<Rightarrow> node \<Rightarrow> pydict" where
  "quote_stats_item metrics item =
     (let text = lower (get_text_strip item)
      in if py_in ''pe ratio'' text \<or> py_in ''p/e ratio'' text
         then if py_in ''ttm'' text \<or> py_in ''trailing'' text
              then (let numbers = findall_number (get_text item)
                    in if numbers \<noteq> []
                       then metrics(''pe_ratio_ttm'' \<mapsto> of_option (clean_numeric (last numbers)))
                       else metrics)
              else metrics
         else if py_in ''dividend'' text \<and> py_in ''yield'' text
         then parse_dividend_info (get_text_strip item) metrics
         else metrics)"

definition extract_from_quote_stats :: "node \<Rightarrow> pydict \<Rightarrow> pydict" where
  "extract_from_quote_stats soup metrics =
     foldl (\<lambda>m section. foldl quote_stats_item m (find_all (named_in [''li'', ''tr'', ''div'']) section))
       metrics (stats_sections soup)"

subsection \<open>\<^verbatim>\<open>_extract_from_tables\<close>\<close>

definition table_row :: "pydict \<Rightarrow> node \<Rightarrow> pydict" where
  "table_row metrics row =
     (let cells = find_all (named_in [''td'', ''th'']) row
      in if length cells \<ge> 2
         then (let label = lower (get_text_strip (cells ! 0));
                   v = get_text_strip (cells ! 1)
               in if (py_in ''pe ratio'' label \<or> py_in ''p/e ratio'' label) \<and>
                     (py_in ''ttm'' label \<or> py_in ''trailing'' label)
                  then metrics(''pe_ratio_ttm'' \<mapsto> of_option (clean_numeric v))
                  else if py_in ''forward annual dividend rate'' label
                  then metrics(''forward_dividend_rate'' \<mapsto> of_option (clean_numeric v))
                  else if py_in ''forward annual dividend yield'' label
                  then metrics(''forward_dividend_yield'' \<mapsto> of_option (clean_percentage v))
                  else if py_in ''dividend'' label \<and> py_in ''yield'' label \<and> py_in ''forward'' label
                  then parse_dividend_info v metrics
                  else metrics)
         else metrics)"

definition extract_from_tables :: "node \<Rightarrow> pydict \<Rightarrow> pydict" where
  "extract_from_tables soup metrics =
     foldl (\<lambda>m table. foldl table_row m (find_all (named ''tr'') table))
       metrics (find_all (named ''table'') soup)"


section \<open>Growth estimates\<close>

subsection \<open>\<^verbatim>\<open>_extract_from_growth_table\<close>\<close>

definition header_keywords :: "string list" where
  "header_keywords = [''next year'', ''next 5 years'', ''2025'', ''2024'']"

text \<open>The index of the first header that contains a keyword, as the loop with \<^verbatim>\<open>break\<close> finds it.\<close>

fun first_index :: "('a \<Rightarrow> bool) \<Rightarrow> 'a list \<Rightarrow> nat option" where
  "first_index p [] = None"
| "first_index p (x # xs) = (if p x then Some 0 else map_option Suc (first_index p xs))"

definition next_year_col :: "string list \<Rightarrow> nat option" where
  "next_year_col headers =
     first_index (\<lambda>header. list_ex (\<lambda>keyword. py_in keyword (lower header)) header_keywords) headers"

definition header_row :: "node \<Rightarrow> node option" where
  "header_row table =
     (case find_tag (named ''thead'') table of
        Some h \<Rightarrow> Some h
      | None \<Rightarrow> find_tag (named ''tr'') table)"

text \<open>
  The loop over the rows. It returns from the function at the first row that is long
  enough, whose first cell passes the test of the company row and whose cell in the
  target column is neither empty nor one of \<^verbatim>\<open>N/A\<close>, \<^verbatim>\<open>NA\<close>, \<^verbatim>\<open>--\<close>; what it returns
  there may be \<^verbatim>\<open>None\<close>.
\<close>

fun scan_rows :: "nat \<Rightarrow> string \<Rightarrow> node list \<Rightarrow> rat option" where
  "scan_rows idx symbol [] = None"
| "scan_rows idx symbol (row # rows) =
     (let cells = find_all (named_in [''td'', ''th'']) row
      in if length cells > idx
         then (let first_cell_text = upper (get_text_strip (cells ! 0))
               in if first_cell_text = upper symbol \<or>
                     (length first_cell_text \<le> 6 \<and> isalpha first_cell_text \<and>
                      \<not> py_in ''S&P'' first_cell_text \<and> \<not> py_in ''500'' first_cell_text \<and>
                      \<not> py_in ''SECTOR'' first_cell_text \<and> \<not> py_in ''INDUSTRY'' first_cell_text)
                  then (let growth_value = get_text_strip (cells ! idx)
                        in if growth_value \<noteq> [] \<and>
                              upper growth_value \<notin> set [''N/A'', ''NA'', ''--'']
                           then clean_percentage growth_value
                           else scan_rows idx symbol rows)
                  else scan_rows idx symbol rows)
         else scan_rows idx symbol rows)"

definition extract_from_growth_table :: "node \<Rightarrow> string \<Rightarrow> rat option" where
  "extract_from_growth_table table symbol =
     (case header_row table of
        None \<Rightarrow> None
      | Some h \<Rightarrow>
          (case next_year_col (map get_text_strip (find_all (named_in [''th'', ''td'']) h)) of
             None \<Rightarrow> None
           | Some idx \<Rightarrow> scan_rows idx symbol (find_all (named ''tr'') table)))"

subsection \<open>\<^verbatim>\<open>_extract_growth_estimate_table\<close>\<close>

definition growth_method1 :: "node \<Rightarrow> string \<Rightarrow> rat option" where
  "growth_method1 soup symbol =
     (case find_tag (\<lambda>k. named ''section'' k \<and> has_attr ''data-testid'' ''growthEstimate'' k) soup of
        None \<Rightarrow> None
      | Some growth_section \<Rightarrow>
          (case find_tag (named ''table'') growth_section of
             None \<Rightarrow> None
           | Some table \<Rightarrow> extract_from_growth_table table symbol))"

definition growth_method2 :: "node \<Rightarrow> string \<Rightarrow> rat option" where
  "growth_method2 soup symbol =
     first_some
       (\<lambda>table.
          let table_text = lower (get_text table)
          in if py_in ''growth'' table_text \<and> py_in ''next year'' table_text
             then extract_from_growth_table table symbol else None)
       (find_all (named ''table'') soup)"

definition growth_method3 :: "node \<Rightarrow> string \<Rightarrow> rat option" where
  "growth_method3 soup symbol =
     first_some
       (\<lambda>(parent, table).
          let parent_text = lower (get_text parent)
          in if (py_in ''estimate'' parent_text \<and> py_in ''growth'' parent_text) \<or>
                py_in ''next year'' (lower (get_text table))
             then extract_from_growth_table table symbol else None)
       (find_all_parent (named ''table'') soup)"

definition extract_growth_estimate_table :: "node \<Rightarrow> string \<Rightarrow> rat option" where
  "extract_growth_estimate_table soup symbol =
     first_some (\<lambda>method. method soup symbol) [growth_method1, growth_method2, growth_method3]"

section \<open>The extraction pipeline\<close>

text \<open>
  The page fetcher is a parameter: for a URL it gives the status code and the parsed body
  of the response, or the message of the exception that \<^verbatim>\<open>session.get\<close> raised. The pauses
  (\<^verbatim>\<open>time.sleep\<close>) and the messages printed by the handlers have no effect on the result.
\<close>

datatype response = Response int node | Raised string

text \<open>\<^verbatim>\<open>urllib.parse.quote\<close> on ASCII text, and the decimal text of a status code.\<close>

definition hex_digit :: "nat \<Rightarrow> char" where
  "hex_digit n = ''0123456789ABCDEF'' ! n"

definition quote :: "string \<Rightarrow> string" where
  "quote s =
     concat (map (\<lambda>c. if c \<in> set (ascii_lowercase @ ascii_uppercase @ ''0123456789_.-~/'')
                      then [c]
                      else [CHR ''%'', hex_digit (of_char c div 16), hex_digit (of_char c mod 16)]) s)"

fun str_nat :: "nat \<Rightarrow> string" where
  "str_nat n = (if n < 10 then [hex_digit n] else str_nat (n div 10) @ [hex_digit (n mod 10)])"

declare str_nat.simps [simp del]

definition str_int :: "int \<Rightarrow> string" where
  "str_int i = (if i < 0 then CHR ''-'' # str_nat (nat (- i)) else str_nat (nat i))"

definition summary_url :: "string \<Rightarrow> string" where
  "summary_url symbol = ''https://finance.yahoo.com/quote/'' @ quote (upper symbol)"

definition analysis_url :: "string \<Rightarrow> string" where
  "analysis_url symbol = ''https://finance.yahoo.com/quote/'' @ quote (upper symbol) @ ''/analysis''"

text \<open>
  \<^verbatim>\<open>_get_summary_metrics\<close> and \<^verbatim>\<open>_get_growth_estimates\<close>. Each catches every exception
  of its body; in the model only the fetch raises.
\<close>

definition get_summary_metrics :: "(string \<Rightarrow> response) \<Rightarrow> string \<Rightarrow> pydict" where
  "get_summary_metrics fetch symbol =
     (case fetch (summary_url symbol) of
        Raised e \<Rightarrow> [''error'' \<mapsto> PStr (''Error in summary metrics: '' @ e)]
      | Response status_code soup \<Rightarrow>
          if status_code \<noteq> 200
          then [''error'' \<mapsto> PStr (''Failed to retrieve summary data: Status code '' @ str_int status_code)]
          else extract_from_tables soup
                 (extract_from_quote_stats soup
                    (extract_by_testid soup
                       (extract_current_price soup Map.empty))))"

definition get_growth_estimates :: "(string \<Rightarrow> response) \<Rightarrow> string \<Rightarrow> pydict" where
  "get_growth_estimates fetch symbol =
     (case fetch (analysis_url symbol) of
        Raised e \<Rightarrow> [''error'' \<mapsto> PStr (''Error in growth estimates: '' @ e)]
      | Response status_code soup \<Rightarrow>
          if status_code \<noteq> 200
          then [''error'' \<mapsto> PStr (''Failed to retrieve analysis data: Status code '' @ str_int status_code)]
          else (case extract_growth_estimate_table soup symbol of
                  None \<Rightarrow> Map.empty
                | Some growth_estimate \<Rightarrow> [''growth_estimate_next_year'' \<mapsto> PNum growth_estimate]))"

text \<open>
  \<^verbatim>\<open>get_key_metrics\<close>: \<^verbatim>\<open>dict.update\<close> is \<open>++\<close>. The two phases return normally in every
  case, so the handler around them is not entered.
\<close>

definition initial_metrics :: "string \<Rightarrow> pydict" where
  "initial_metrics symbol =
     [''symbol'' \<mapsto> PStr (upper symbol),
      ''current_price'' \<mapsto> PNone,
      ''pe_ratio_ttm'' \<mapsto> PNone,
      ''forward_dividend_rate'' \<mapsto> PNone,
      ''forward_dividend_yield'' \<mapsto> PNone,
      ''growth_estimate_next_year'' \<mapsto> PNone,
      ''error'' \<mapsto> PNone]"

definition get_key_metrics :: "(string \<Rightarrow> response) \<Rightarrow> string \<Rightarrow> pydict" where
  "get_key_metrics fetch symbol =
     (let summary_metrics = get_summary_metrics fetch symbol;
          metrics1 = initial_metrics symbol ++ summary_metrics;
          growth_metrics = get_growth_estimates fetch symbol
      in metrics1 ++ growth_metrics)"


section \<open>Secondary metrics and display\<close>

text \<open>
  Python's operations on dictionary values, with what they raise: \<^verbatim>\<open>d[key]\<close>, \<^verbatim>\<open>a / b\<close>,
  \<^verbatim>\<open>a * b\<close>, \<^verbatim>\<open>a != 0\<close>.
\<close>

definition subscript :: "pydict \<Rightarrow> string \<Rightarrow> exn + pyval" where
  "subscript d key = (case d key of None \<Rightarrow> Inl KeyError | Some v \<Rightarrow> Inr v)"

















definition numeric_keys :: "string list" where
  "numeric_keys =
     [''current_price'', ''pe_ratio_ttm'', ''forward_dividend_rate'', ''forward_dividend_yield'',
      ''growth_estimate_next_year'']"





section \<open>Documents used as examples\<close>

text \<open>A table row of \<^verbatim>\<open>td\<close> cells with the given texts, and a table of such rows.\<close>

definition row_of :: "string list \<Rightarrow> node" where
  "row_of cells = Tag ''tr'' [] [] (map (\<lambda>c. Tag ''td'' [] [] [Text c]) cells)"

definition table_of :: "string list list \<Rightarrow> node" where
  "table_of rows = Tag ''table'' [] [] (map row_of rows)"

definition document :: "node list \<Rightarrow> node" where
  "document ks = Tag ''[document]'' [] [] ks"

text \<open>The test of the company row and the cells of a row, named for the statements below.\<close>

definition company_row :: "string \<Rightarrow> string \<Rightarrow> bool" where
  "company_row symbol first_cell_text =
     (first_cell_text = upper symbol \<or>
      (length first_cell_text \<le> 6 \<and> isalpha first_cell_text \<and>
       \<not> py_in ''S&P'' first_cell_text \<and> \<not> py_in ''500'' first_cell_text \<and>
       \<not> py_in ''SECTOR'' first_cell_text \<and> \<not> py_in ''INDUSTRY'' first_cell_text))"

definition row_cells :: "node \<Rightarrow> string list" where
  "row_cells row = map get_text_strip (find_all (named_in [''td'', ''th'']) row)"

text \<open>
  A page on which the parent of the price has a \<^verbatim>\<open>data-testid\<close> but neither an \<^verbatim>\<open>id\<close> nor
  a class.
\<close>

definition price_span_example :: node where
  "price_span_example = Tag ''span'' [] [] [Text ''12.34'']"

definition price_parent_example :: node where
  "price_parent_example =
     Tag ''div'' [(''data-testid'', ''price'')] [] [Tag ''b'' [] [] [Text ''Last''], price_span_example]"

definition price_page_example :: node where
  "price_page_example = document [price_parent_example]"

text \<open>
  A page with the P/E ratio under its test identifier and, with another value, in the
  quote statistics; and a statistics item with a negative P/E ratio.
\<close>

definition pe_page_example :: node where
  "pe_page_example =
     document
       [Tag ''span'' [(''data-testid'', ''PE_RATIO-value'')] [] [Text ''28.5''],
        Tag ''div'' [(''data-testid'', ''quote-statistics'')] []
          [Tag ''li'' [] [] [Text ''PE Ratio (TTM) 30.1'']]]"

definition negative_pe_item :: node where
  "negative_pe_item = Tag ''li'' [] [] [Text ''PE Ratio (TTM) -12.5'']"

text \<open>
  Two page fetchers: one that answers every request with status 404, and one that answers
  500 except for the analysis page of \<^verbatim>\<open>AAPL\<close>, which holds a growth table.
\<close>

definition fetch_404 :: "string \<Rightarrow> response" where
  "fetch_404 url = Response 404 (document [])"

definition growth_page_example :: node where
  "growth_page_example =
     document [table_of [[''Growth Estimates'', ''Next Year''], [''AAPL'', ''8.4%'']]]"

definition fetch_analysis_only :: "string \<Rightarrow> response" where
  "fetch_analysis_only url =
     (if url = ''https://finance.yahoo.com/quote/AAPL/analysis''
      then Response 200 growth_page_example
      else Response 500 (document []))"


section \<open>Evaluation on concrete inputs\<close>

text \<open>The defining equations that the simplifier unfolds to run the model on an example.\<close>

lemmas str_eval = upper_def upper_char_def lower_def lower_char_def ascii_lowercase_def
  ascii_uppercase_def is_digit_def is_space_def numeric_char_def unavailable_def isalpha_def
  strip_def

lemmas float_eval = py_float_def unsigned_float_def digits_val_def digit_val_def
  clean_numeric_def clean_percentage_def clean_numeric_value_def clean_percentage_value_def

lemmas re_eval = number_token_def percent_token_def findall_number_def findall_percent_def
  dividend_match_def price_format_def token_value_def Let_def

lemmas dom_eval = find_all_parent_def find_all_def find_tag_def named_def named_in_def
  has_attr_def attr_where_def class_where_def get_text_def get_text_strip_def tag_string.simps
  row_of_def table_of_def document_def row_cells_def

lemmas growth_eval = extract_from_growth_table_def header_row_def next_year_col_def
  header_keywords_def company_row_def Let_def

lemmas price_eval = price_method5_def fallback_element_def string_matches_def price_format_def
  accept_above_def parent_identified_def parent_attrs_def price_keywords_def
  price_page_example_def price_parent_example_def price_span_example_def Let_def


lemmas locator_eval = extract_by_testid_def by_testid_step_def test_ids_def
  extract_from_quote_stats_def stats_sections_def quote_stats_item_def
  extract_from_tables_def table_row_def parse_dividend_info_def dict_get_def
  pe_page_example_def negative_pe_item_def


section \<open>Properties of the value normalizer\<close>

lemma upper_char_digit: "is_digit c \<Longrightarrow> upper_char c = c"
  unfolding is_digit_def
  by (simp, elim disjE; simp add: upper_char_def ascii_lowercase_def ascii_uppercase_def)

lemma unavailable_no_digit:
  assumes "upper v \<in> set unavailable" "c \<in> set v" shows "\<not> is_digit c"
proof
  assume d: "is_digit c"
  from assms(2) have "upper_char c \<in> set (upper v)" by (simp add: upper_def)
  with d have "c \<in> set (upper v)" by (simp add: upper_char_digit)
  with assms(1) d show False
    by (auto simp: unavailable_def is_digit_def)
qed

lemma unsigned_float_parts:
  assumes "list_all is_digit ip" "list_all is_digit fd" "dot \<or> fd = []" "0 < length ip + length fd"
  shows "unsigned_float (ip @ (if dot then ''.'' else '''') @ fd)
           = Inr (of_nat (digits_val (ip @ fd)) / 10 ^ length fd)"
proof -
  have nd: "\<not> is_digit CHR ''.''" by (simp add: is_digit_def)
  from assms(1) have ip: "\<forall>c\<in>set ip. is_digit c" by (simp add: list_all_iff)
  show ?thesis
  proof (cases dot)
    case True
    have t: "takeWhile is_digit (ip @ CHR ''.'' # fd) = ip"
      using ip nd by (simp add: takeWhile_append2)
    have d: "dropWhile is_digit (ip @ CHR ''.'' # fd) = CHR ''.'' # fd"
      using ip nd by (simp add: dropWhile_append2)
    show ?thesis using True assms(2,4) by (simp add: unsigned_float_def t d)
  next
    case False
    with assms(3) have fd: "fd = []" by simp
    have t: "takeWhile is_digit ip = ip" using ip by simp
    have d: "dropWhile is_digit ip = []" using ip by simp
    show ?thesis using False fd assms(4) by (simp add: unsigned_float_def t d)
  qed
qed

lemma unsigned_float_Inr:
  assumes "unsigned_float body = Inr x"
  shows "\<exists>ip dot fd. body = ip @ (if dot then ''.'' else '''') @ fd \<and>
           list_all is_digit ip \<and> list_all is_digit fd \<and> (dot \<or> fd = []) \<and>
           0 < length ip + length fd \<and> x = of_nat (digits_val (ip @ fd)) / 10 ^ length fd"
proof -
  let ?ip = "takeWhile is_digit body" and ?r = "dropWhile is_digit body"
  have body: "body = ?ip @ ?r" by simp
  have ipd: "list_all is_digit ?ip" by (simp add: list_all_iff) (meson set_takeWhileD)
  show ?thesis
  proof (cases ?r)
    case Nil
    with assms have "?ip \<noteq> []" "x = of_nat (digits_val ?ip)"
      by (auto simp: unsigned_float_def Let_def split: if_splits)
    moreover from Nil have "body = ?ip" by (metis append_Nil2 takeWhile_dropWhile_id)
    ultimately show ?thesis using ipd
      by (intro exI[of _ ?ip] exI[of _ False] exI[of _ "[]"]) simp
  next
    case (Cons c fd)
    with assms have c: "c = CHR ''.''" and fdd: "list_all is_digit fd"
      and pos: "0 < length ?ip + length fd"
      and x: "x = of_nat (digits_val (?ip @ fd)) / 10 ^ length fd"
      by (auto simp: unsigned_float_def Let_def split: if_splits)
    from body Cons c have "body = ?ip @ ''.'' @ fd" by simp
    with ipd fdd pos x show ?thesis
      by (intro exI[of _ ?ip] exI[of _ True] exI[of _ fd]) auto
  qed
qed

lemma py_float_decimal:
  assumes "decimal_parts neg ip dot fd"
  shows "py_float (decimal_text neg ip dot fd) = Inr (decimal_value neg ip fd)"
proof -
  from assms have p: "list_all is_digit ip" "list_all is_digit fd" "dot \<or> fd = []"
    "0 < length ip + length fd" by (simp_all add: decimal_parts_def)
  note u = unsigned_float_parts[OF p]
  show ?thesis
  proof (cases neg)
    case True
    then show ?thesis using u
      by (simp add: py_float_def decimal_text_def decimal_value_def)
  next
    case False
    let ?s = "ip @ (if dot then ''.'' else '''') @ fd"
    from p have ne: "?s \<noteq> []" by auto
    have "hd ?s \<noteq> CHR ''-''"
    proof (cases ip)
      case Nil
      with p have "dot" "fd \<noteq> []" by auto
      with Nil show ?thesis by simp
    next
      case (Cons a as)
      with p(1) have "is_digit a" by simp
      then have "a \<noteq> CHR ''-''" by (auto simp: is_digit_def)
      with Cons show ?thesis by simp
    qed
    with ne have "py_float ?s = unsigned_float ?s"
      by (cases ?s) (auto simp: py_float_def)
    with False u show ?thesis
      by (simp add: decimal_text_def decimal_value_def)
  qed
qed

lemma py_float_Inr:
  assumes "py_float s = Inr x"
  shows "\<exists>neg ip dot fd. s = decimal_text neg ip dot fd \<and> decimal_parts neg ip dot fd \<and>
           x = decimal_value neg ip fd"
proof (cases s)
  case Nil
  with assms show ?thesis by (simp add: py_float_def)
next
  case (Cons c t)
  show ?thesis
  proof (cases "c = CHR ''-''")
    case True
    with assms Cons obtain y where y: "unsigned_float t = Inr y" and x: "x = - y"
      by (cases "unsigned_float t") (auto simp: py_float_def)
    from unsigned_float_Inr[OF y] obtain ip dot fd where
      "t = ip @ (if dot then ''.'' else '''') @ fd" "list_all is_digit ip" "list_all is_digit fd"
      "dot \<or> fd = []" "0 < length ip + length fd"
      "y = of_nat (digits_val (ip @ fd)) / 10 ^ length fd" by blast
    with Cons True x show ?thesis
      by (intro exI[of _ True] exI[of _ ip] exI[of _ dot] exI[of _ fd])
         (simp add: decimal_text_def decimal_parts_def decimal_value_def)
  next
    case False
    with assms Cons have y: "unsigned_float s = Inr x" by (simp add: py_float_def)
    from unsigned_float_Inr[OF y] obtain ip dot fd where
      "s = ip @ (if dot then ''.'' else '''') @ fd" "list_all is_digit ip" "list_all is_digit fd"
      "dot \<or> fd = []" "0 < length ip + length fd"
      "x = of_nat (digits_val (ip @ fd)) / 10 ^ length fd" by blast
    then show ?thesis
      by (intro exI[of _ False] exI[of _ ip] exI[of _ dot] exI[of _ fd])
         (simp add: decimal_text_def decimal_parts_def decimal_value_def)
  qed
qed

lemma unsigned_float_raises: "unsigned_float b = Inl e \<Longrightarrow> e = ValueError"
  unfolding unsigned_float_def Let_def by (simp split: list.splits if_splits)

lemma py_float_raises: "py_float s = Inl e \<Longrightarrow> e = ValueError"
proof (cases s)
  case Nil
  then show "py_float s = Inl e \<Longrightarrow> e = ValueError" by (simp add: py_float_def)
next
  case (Cons c t)
  assume a: "py_float s = Inl e"
  show "e = ValueError"
  proof (cases "c = CHR ''-''")
    case True
    with a Cons have "unsigned_float t = Inl e"
      by (cases "unsigned_float t") (auto simp: py_float_def)
    then show ?thesis by (rule unsigned_float_raises)
  next
    case False
    with a Cons have "unsigned_float s = Inl e" by (simp add: py_float_def)
    then show ?thesis by (rule unsigned_float_raises)
  qed
qed

lemma decimal_text_has_digit:
  assumes "decimal_parts neg ip dot fd"
  shows "\<exists>c \<in> set (decimal_text neg ip dot fd). is_digit c"
proof -
  from assms have "ip \<noteq> [] \<or> fd \<noteq> []" by (auto simp: decimal_parts_def)
  then obtain c where "c \<in> set ip \<or> c \<in> set fd" by (cases ip; cases fd) auto
  moreover from assms have "\<forall>c \<in> set ip \<union> set fd. is_digit c"
    by (auto simp: decimal_parts_def list_all_iff)
  ultimately show ?thesis by (auto simp: decimal_text_def)
qed

lemma py_float_Inr_digit:
  assumes "py_float s = Inr x" shows "\<exists>c \<in> set s. is_digit c"
  using py_float_Inr[OF assms] decimal_text_has_digit by blast

lemma degenerate_no_float: "s \<in> set ['''', ''-'', ''.'', ''-.''] \<Longrightarrow> py_float s = Inl ValueError"
  by (auto simp: py_float_def unsigned_float_def is_digit_def)

lemma clean_numeric_value_float:
  "clean_numeric_value v =
     Inr (case py_float (filter numeric_char v) of Inr x \<Rightarrow> Some x | Inl e \<Rightarrow> None)"
proof (cases "py_float (filter numeric_char v)")
  case (Inl e)
  then have "e = ValueError" by (rule py_float_raises)
  with Inl show ?thesis by (simp add: clean_numeric_value_def Let_def)
next
  case (Inr x)
  from py_float_Inr_digit[OF Inr] obtain c where c: "c \<in> set v" "is_digit c" by auto
  then have 1: "v \<noteq> []" by auto
  from c have 2: "upper v \<notin> set unavailable" using unavailable_no_digit by blast
  have 3: "filter numeric_char v \<notin> set ['''', ''-'', ''.'', ''-.'']"
    using degenerate_no_float Inr by fastforce
  then have "filter numeric_char v \<noteq> [] \<and> filter numeric_char v \<notin> set [''-'', ''.'', ''-.'']"
    by simp
  with 1 2 Inr show ?thesis by (simp add: clean_numeric_value_def Let_def del: set_simps)
qed


lemma unavailable_no_float:
  assumes "upper v \<in> set unavailable"
  shows "py_float (filter numeric_char v) = Inl ValueError"
proof (cases "py_float (filter numeric_char v)")
  case (Inl e)
  then show ?thesis using py_float_raises by blast
next
  case (Inr x)
  from py_float_Inr_digit[OF Inr] obtain c where "c \<in> set v" "is_digit c" by auto
  with assms unavailable_no_digit show ?thesis by blast
qed

text \<open>
  Claim C3, as the code has it. \<^verbatim>\<open>_clean_numeric_value\<close> never raises. It returns absent
  for the tokens \<^verbatim>\<open>N/A\<close>, \<^verbatim>\<open>NA\<close>, \<^verbatim>\<open>--\<close>, the empty string and \<^verbatim>\<open>NULL\<close> in any letter
  case. Otherwise it removes every character that is not a digit, a point or a minus sign
  (all points and all minus signs stay), returns absent when what is left is empty or one
  of \<^verbatim>\<open>-\<close>, \<^verbatim>\<open>.\<close>, \<^verbatim>\<open>-.\<close>, and returns a number exactly when what is left is a decimal
  literal: an optional leading minus sign, digits with at most one point, at least one
  digit. The number is the one the literal denotes.
\<close>

theorem clean_numeric_value_decimal:
  "(\<exists>r. clean_numeric_value v = Inr r) \<and>
   (upper v \<in> set unavailable \<longrightarrow> clean_numeric_value v = Inr None) \<and>
   (filter numeric_char v \<in> set ['''', ''-'', ''.'', ''-.''] \<longrightarrow> clean_numeric_value v = Inr None) \<and>
   (clean_numeric_value v = Inr (Some x) \<longleftrightarrow>
      (\<exists>neg ip dot fd. filter numeric_char v = decimal_text neg ip dot fd \<and>
          decimal_parts neg ip dot fd \<and> x = decimal_value neg ip fd))"
proof (intro conjI impI)
  show "\<exists>r. clean_numeric_value v = Inr r" by (simp add: clean_numeric_value_float)
next
  assume "upper v \<in> set unavailable"
  then show "clean_numeric_value v = Inr None"
    by (simp add: clean_numeric_value_float unavailable_no_float)
next
  assume "filter numeric_char v \<in> set ['''', ''-'', ''.'', ''-.'']"
  then have "py_float (filter numeric_char v) = Inl ValueError" by (rule degenerate_no_float)
  then show "clean_numeric_value v = Inr None" by (simp add: clean_numeric_value_float)
next
  show "clean_numeric_value v = Inr (Some x) \<longleftrightarrow>
      (\<exists>neg ip dot fd. filter numeric_char v = decimal_text neg ip dot fd \<and>
          decimal_parts neg ip dot fd \<and> x = decimal_value neg ip fd)" (is "?L \<longleftrightarrow> ?R")
  proof
    assume ?L
    then have "py_float (filter numeric_char v) = Inr x"
      by (simp add: clean_numeric_value_float split: sum.splits)
    then show ?R by (rule py_float_Inr)
  next
    assume ?R
    then obtain neg ip dot fd where "filter numeric_char v = decimal_text neg ip dot fd"
      "decimal_parts neg ip dot fd" "x = decimal_value neg ip fd" by blast
    then have "py_float (filter numeric_char v) = Inr x" by (simp add: py_float_decimal)
    then show ?L by (simp add: clean_numeric_value_float)
  qed
qed

theorem clean_numeric_value_decimal_witness:
  "upper ''n/a'' \<in> set unavailable \<and> clean_numeric_value ''n/a'' = Inr None \<and>
   filter numeric_char ''$-.'' \<in> set ['''', ''-'', ''.'', ''-.''] \<and>
   clean_numeric_value ''$-.'' = Inr None \<and>
   clean_numeric_value ''$1,234.50'' = Inr (Some (2469 / 2))"
proof -
  have a: "upper ''n/a'' \<in> set unavailable" by (simp add: str_eval)
  have b: "filter numeric_char ''$-.'' \<in> set ['''', ''-'', ''.'', ''-.'']" by (simp add: str_eval)
  have c: "filter numeric_char ''$1,234.50'' = decimal_text False ''1234'' True ''50''"
    by (simp add: str_eval decimal_text_def)
  have d: "decimal_parts False ''1234'' True ''50''" by (simp add: decimal_parts_def is_digit_def)
  have e: "(2469 / 2 :: rat) = decimal_value False ''1234'' ''50''"
    by (simp add: decimal_value_def digits_val_def digit_val_def)
  from clean_numeric_value_decimal[of "''n/a''"] a
  have 1: "clean_numeric_value ''n/a'' = Inr None" by blast
  from clean_numeric_value_decimal[of "''$-.''"] b
  have 2: "clean_numeric_value ''$-.'' = Inr None" by blast
  from clean_numeric_value_decimal[of "''$1,234.50''" "2469 / 2"] c d e
  have 3: "clean_numeric_value ''$1,234.50'' = Inr (Some (2469 / 2))" by blast
  from a b 1 2 3 show ?thesis by blast
qed

text \<open>
  The claim as worded keeps "a single leading minus sign" and "a single decimal point" and
  parses the rest, which gives 12 on the text \<^verbatim>\<open>1-2\<close>. The code keeps the inner minus sign,
  \<^verbatim>\<open>float\<close> rejects \<^verbatim>\<open>1-2\<close>, and the result is absent.
\<close>

theorem clean_numeric_value_single_sign_counterexample:
  "upper ''1-2'' \<notin> set unavailable \<and>
   spec_strip False False ''1-2'' = ''12'' \<and>
   spec_normalize_numeric ''1-2'' = Some 12 \<and>
   clean_numeric_value ''1-2'' = Inr None"
  by (simp add: str_eval float_eval clean_numeric_value_def spec_normalize_numeric_def)

section \<open>Properties of the secondary metrics calculator\<close>









section \<open>Zero and absent metrics\<close>

lemma zero_none_get:
  "truthy (dict_get (m(key \<mapsto> PNum 0)) k) = truthy (dict_get (m(key \<mapsto> PNone)) k)"
  by (simp add: dict_get_def)

lemma zero_none_subscript:
  "k \<noteq> key \<Longrightarrow> subscript (m(key \<mapsto> v)) k = subscript m k"
  by (simp add: subscript_def)




















section \<open>Properties of the pattern matchers and of the dividend sub-routine\<close>

lemma while_append:
  assumes "list_all P xs" "ys = [] \<or> \<not> P (hd ys)"
  shows "takeWhile P (xs @ ys) = xs" "dropWhile P (xs @ ys) = ys"
proof -
  from assms(1) have a: "\<forall>x\<in>set xs. P x" by (simp add: list_all_iff)
  from assms(2) have t: "takeWhile P ys = []" and d: "dropWhile P ys = ys"
    by (cases ys; auto)+
  from a t show "takeWhile P (xs @ ys) = xs" by (simp add: takeWhile_append2)
  from a d show "dropWhile P (xs @ ys) = ys" by (simp add: dropWhile_append2)
qed


lemma takeWhile_all: "list_all P (takeWhile P xs)"
  by (induction xs) simp_all

lemma number_token_sound:
  assumes "number_token s = Some (t, r)"
  shows "s = t @ r \<and> number_lang t"
proof -
  let ?d1 = "takeWhile is_digit s" and ?r1 = "dropWhile is_digit s"
  have s: "s = ?d1 @ ?r1" by simp
  from assms have ne: "?d1 \<noteq> []" by (auto simp: number_token_def Let_def split: if_splits)
  show ?thesis
  proof (cases "?r1")
    case Nil
    with assms ne have "t = ?d1" "r = []" by (auto simp: number_token_def Let_def)
    moreover have "number_lang ?d1" unfolding number_lang_def
      using ne by (intro exI[of _ ?d1] exI[of _ False] exI[of _ "[]"]) (simp add: takeWhile_all)
    ultimately show ?thesis using s Nil by simp
  next
    case (Cons c r2)
    show ?thesis
    proof (cases "c = CHR ''.''")
      case True
      with assms ne Cons have t: "t = ?d1 @ ''.'' @ takeWhile is_digit r2" and r: "r = dropWhile is_digit r2"
        by (auto simp: number_token_def Let_def)
      have "number_lang t" unfolding number_lang_def t
        using ne by (intro exI[of _ ?d1] exI[of _ True] exI[of _ "takeWhile is_digit r2"])
                    (simp add: takeWhile_all)
      moreover have "s = t @ r"
      proof -
        have "s = ?d1 @ c # r2" using s Cons by simp
        also have "\<dots> = ?d1 @ ''.'' @ (takeWhile is_digit r2 @ dropWhile is_digit r2)"
          using True by simp
        finally show ?thesis unfolding t r by simp
      qed
      ultimately show ?thesis by simp
    next
      case False
      with assms ne Cons have "t = ?d1" "r = ?r1" by (auto simp: number_token_def Let_def)
      moreover have "number_lang ?d1" unfolding number_lang_def
        using ne by (intro exI[of _ ?d1] exI[of _ False] exI[of _ "[]"]) (simp add: takeWhile_all)
      ultimately show ?thesis using s by simp
    qed
  qed
qed

lemma token_shorter:
  "number_token s = Some (t, r) \<Longrightarrow> length r < length s"
  "percent_token s = Some (t, r) \<Longrightarrow> length r < length s"
proof -
  have n: "\<And>t r. number_token s = Some (t, r) \<Longrightarrow> length r < length s"
  proof -
    fix t r assume a: "number_token s = Some (t, r)"
    from number_token_sound[OF a] have "s = t @ r" "number_lang t" by simp_all
    then show "length r < length s" unfolding number_lang_def by auto
  qed
  show "number_token s = Some (t, r) \<Longrightarrow> length r < length s" by (rule n)
  assume "percent_token s = Some (t, r)"
  then obtain u q where "number_token s = Some (u, q)" "length r < length q"
    by (auto simp: percent_token_def split: option.splits list.splits if_splits)
  with n[of u q] show "length r < length s" by simp
qed








lemma filter_digits_all: "list_all is_digit ds \<Longrightarrow> filter is_digit ds = ds"
  by (induction ds) simp_all

lemma token_value_parts:
  assumes "list_all is_digit d1" "list_all is_digit d2" "dot \<or> d2 = []"
    "x = [] \<or> x = ''%''"
  shows "token_value (d1 @ (if dot then ''.'' else '''') @ d2 @ x)
           = of_nat (digits_val (d1 @ d2)) / 10 ^ length d2"
proof -
  let ?rest = "(if dot then ''.'' else '''') @ d2 @ x"
  have nd: "\<not> is_digit CHR ''.''" "\<not> is_digit CHR ''%''" by (simp_all add: is_digit_def)
  have h: "?rest = [] \<or> \<not> is_digit (hd ?rest)"
    using assms(3,4) nd by (cases dot) auto
  have t: "takeWhile is_digit (d1 @ ?rest) = d1" and d: "dropWhile is_digit (d1 @ ?rest) = ?rest"
    using while_append[OF assms(1) h] by simp_all
  have f: "filter is_digit ?rest = d2"
    using assms(4) nd filter_digits_all[OF assms(2)] by (cases dot) auto
  show ?thesis unfolding token_value_def Let_def t d f ..
qed

lemma number_lang_float:
  assumes "number_lang g"
  shows "py_float g = Inr (token_value g)"
proof -
  from assms obtain d1 dot d2 where g: "g = d1 @ (if dot then ''.'' else '''') @ d2"
    and d: "0 < length d1" "list_all is_digit d1" "list_all is_digit d2" "dot \<or> d2 = []"
    unfolding number_lang_def by blast
  from d have p: "decimal_parts False d1 dot d2" by (simp add: decimal_parts_def)
  have "py_float (decimal_text False d1 dot d2) = Inr (decimal_value False d1 d2)"
    by (rule py_float_decimal[OF p])
  moreover have "decimal_text False d1 dot d2 = g" by (simp add: decimal_text_def g)
  moreover have "token_value g = decimal_value False d1 d2"
    using token_value_parts[OF d(2,3,4), of "[]"] by (simp add: g decimal_value_def)
  ultimately show ?thesis by simp
qed

lemma number_lang_chars:
  assumes "number_lang g" shows "filter numeric_char g = g"
proof -
  from assms obtain d1 dot d2 where g: "g = d1 @ (if dot then ''.'' else '''') @ d2"
    and d: "list_all is_digit d1" "list_all is_digit d2"
    unfolding number_lang_def by blast
  have "\<And>ds. list_all is_digit ds \<Longrightarrow> filter numeric_char ds = ds"
  proof -
    fix ds show "list_all is_digit ds \<Longrightarrow> filter numeric_char ds = ds"
      by (induction ds) (simp_all add: numeric_char_def)
  qed
  with d show ?thesis unfolding g by (simp add: numeric_char_def)
qed




section \<open>Properties of the growth-table extractor\<close>











section \<open>Properties of the price locator\<close>

lemma first_some_Some:
  "first_some f xs = Some y \<Longrightarrow> \<exists>x \<in> set xs. f x = Some y"
  by (induction xs) (auto split: option.splits)

lemma accept_above_Some: "accept_above b r = Some p \<Longrightarrow> r = Some p \<and> p > b"
  by (auto simp: accept_above_def split: option.splits if_splits)

lemma fallback_element_Some:
  assumes "fallback_element (parent, element) = Some p"
  shows "clean_numeric (get_text_strip element) = Some p \<and> p > 1 \<and> parent_identified parent \<and>
     list_ex (\<lambda>keyword. py_in keyword (lower (parent_attrs parent))) price_keywords"
proof -
  from assms obtain q where q: "accept_above 1 (clean_numeric (get_text_strip element)) = Some q"
    by (auto simp: fallback_element_def split: option.splits)
  with assms have "q = p \<and> parent_identified parent \<and>
     list_ex (\<lambda>keyword. py_in keyword (lower (parent_attrs parent))) price_keywords"
    by (auto simp: fallback_element_def split: if_splits)
  with accept_above_Some[OF q] show ?thesis by simp
qed

text \<open>
  Claim C8, as the code has it. The fallback accepts an element only when its cleaned text
  is a number greater than 1 and the \<^verbatim>\<open>data-testid\<close> and classes of its parent, joined
  and lower-cased, contain \<^verbatim>\<open>price\<close>, \<^verbatim>\<open>quote\<close> or \<^verbatim>\<open>market\<close>; and a price that the
  fallback returns comes from a span or div of the document whose \<^verbatim>\<open>.string\<close> has the
  price format and which the fallback accepts.
\<close>

theorem price_fallback_guarded:
  "(fallback_element (parent, element) = Some p \<longrightarrow>
      clean_numeric (get_text_strip element) = Some p \<and> p > 1 \<and>
      list_ex (\<lambda>keyword. py_in keyword
                 (lower ((case get_attr parent ''data-testid'' of None \<Rightarrow> [] | Some v \<Rightarrow> v)
                         @ '' '' @ join '' '' (get_class parent))))
        [''price'', ''quote'', ''market'']) \<and>
   (price_method5 soup = Some p \<longrightarrow>
      (\<exists>parent element s. (parent, element) \<in> set (descendants soup) \<and>
          is_tag element \<and> name element \<in> {''span'', ''div''} \<and>
          tag_string element = Some s \<and> price_format s \<and>
          fallback_element (parent, element) = Some p))"
proof (intro conjI impI)
  assume "fallback_element (parent, element) = Some p"
  from fallback_element_Some[OF this]
  show "clean_numeric (get_text_strip element) = Some p" "p > 1"
    "list_ex (\<lambda>keyword. py_in keyword
                 (lower ((case get_attr parent ''data-testid'' of None \<Rightarrow> [] | Some v \<Rightarrow> v)
                         @ '' '' @ join '' '' (get_class parent))))
        [''price'', ''quote'', ''market'']"
    by (simp_all add: parent_attrs_def price_keywords_def)
next
  assume a: "price_method5 soup = Some p"
  let ?c = "find_all_parent (\<lambda>k. named_in [''span'', ''div''] k \<and> string_matches price_format k) soup"
  from a have "first_some fallback_element ?c = Some p" by (simp only: price_method5_def)
  from first_some_Some[OF this] obtain x where x: "x \<in> set ?c" and f: "fallback_element x = Some p"
    by (elim bexE)
  obtain parent element where pe: "x = (parent, element)" by (cases x)
  from x have d: "(parent, element) \<in> set (descendants soup)" "is_tag element"
    "named_in [''span'', ''div''] element" "string_matches price_format element"
    unfolding find_all_parent_def pe by simp_all
  from d(4) obtain s where s: "tag_string element = Some s" "price_format s"
    unfolding string_matches_def by (cases "tag_string element") simp_all
  from d(3) have n: "name element \<in> {''span'', ''div''}" unfolding named_in_def by simp
  from f have f': "fallback_element (parent, element) = Some p" unfolding pe .
  show "\<exists>parent element s. (parent, element) \<in> set (descendants soup) \<and>
          is_tag element \<and> name element \<in> {''span'', ''div''} \<and>
          tag_string element = Some s \<and> price_format s \<and>
          fallback_element (parent, element) = Some p"
    using d(1,2) n s f' by (intro exI[of _ parent] exI[of _ element] exI[of _ s] conjI)
qed

theorem price_fallback_guarded_witness:
  "price_method5 price_page_example = Some (617 / 50) \<and>
   fallback_element (price_parent_example, price_span_example) = Some (617 / 50) \<and>
   clean_numeric (get_text_strip price_span_example) = Some (617 / 50) \<and>
   py_in ''price'' (lower (''price'' @ '' '' @ join '' '' []))"
proof -
  have m: "price_method5 price_page_example = Some (617 / 50)"
    by (simp add: price_eval dom_eval str_eval float_eval)
  note t = price_fallback_guarded[of price_parent_example price_span_example "617 / 50"
              price_page_example]
  from t[THEN conjunct2, rule_format, OF m]
  obtain parent element s where
    "fallback_element (parent, element) = Some (617 / 50)" by (elim exE conjE)
  have f: "fallback_element (price_parent_example, price_span_example) = Some (617 / 50)"
    by (simp add: price_eval dom_eval str_eval float_eval)
  from t[THEN conjunct1, rule_format, OF f]
  have c: "clean_numeric (get_text_strip price_span_example) = Some (617 / 50)" by (elim conjE)
  have "py_in ''price'' (lower (''price'' @ '' '' @ join '' '' []))" by (simp add: str_eval)
  with m f c show ?thesis by (intro conjI)
qed

text \<open>
  The attributes read are \<^verbatim>\<open>data-testid\<close> and \<^verbatim>\<open>class\<close>, not \<^verbatim>\<open>id\<close>: on the example page
  the parent of the only candidate has no \<^verbatim>\<open>id\<close> and no class, and the price is set.
\<close>

theorem price_fallback_without_id_counterexample:
  "find_all_parent (\<lambda>k. named_in [''span'', ''div''] k \<and> string_matches price_format k)
      price_page_example = [(price_parent_example, price_span_example)] \<and>
   get_attr price_parent_example ''id'' = None \<and>
   get_class price_parent_example = [] \<and>
   extract_current_price price_page_example Map.empty ''current_price'' = Some (PNum (617 / 50))"
  by (simp add: price_eval dom_eval str_eval float_eval extract_current_price_def price_methods_def
        price_method1_def price_method2_def price_method3_def price_method4_def quote_header_def)

section \<open>Properties of the locator chain\<close>




lemma parse_dividend_info_keeps:
  assumes "k \<noteq> ''forward_dividend_rate''" "k \<noteq> ''forward_dividend_yield''"
  shows "parse_dividend_info s m k = m k"
proof (cases "dividend_search s")
  case (Some g)
  obtain g1 g2 where g: "g = (g1, g2)" by (cases g)
  show ?thesis using assms
    by (cases "py_float g1") (simp_all add: parse_dividend_info_def Some g)
next
  case None
  let ?n = "findall_number s"
  show ?thesis
  proof (cases "?n \<noteq> [] \<and> \<not> truthy (dict_get m ''forward_dividend_rate'')")
    case True
    show ?thesis using assms True
      by (cases "py_float (hd ?n)") (simp_all add: parse_dividend_info_def None Let_def)
  next
    case False
    then show ?thesis using assms
      by (auto simp: parse_dividend_info_def None Let_def)
  qed
qed










section \<open>The sign of the P/E ratio in the quote statistics\<close>

text \<open>Every token is an unsigned number, so the value stored by the locator is never negative.\<close>

lemma findall_number_lang: "t \<in> set (findall number_token s) \<Longrightarrow> number_lang t"
proof (induction number_token s rule: findall.induct)
  case 1
  then show ?case by simp
next
  case (2 c cs)
  show ?case
  proof (cases "number_token (c # cs)")
    case None
    with 2 show ?thesis by simp
  next
    case (Some a)
    obtain u r where a: "a = (u, r)" by (cases a)
    from number_token_sound[of "c # cs" u r] Some a have u: "number_lang u" by simp
    show ?thesis
    proof (cases "length r < length (c # cs)")
      case True
      with 2(2)[OF Some a[symmetric] True] 2(4) Some a u show ?thesis by auto
    next
      case False
      with 2(3)[OF Some a[symmetric] False] 2(4) Some a u show ?thesis by auto
    qed
  qed
qed

lemma number_lang_clean:
  assumes "number_lang t" shows "clean_numeric t = Some (token_value t)"
  using assms
  by (simp add: clean_numeric_def clean_numeric_value_float number_lang_chars number_lang_float)

lemma token_value_not_negative: "0 \<le> token_value t"
  by (simp add: token_value_def Let_def)

lemma quote_stats_item_pe_not_negative:
  assumes "quote_stats_item m item ''pe_ratio_ttm'' = Some (PNum x)"
    "m ''pe_ratio_ttm'' \<noteq> Some (PNum x)"
  shows "0 \<le> x"
proof -
  let ?text = "lower (get_text_strip item)" and ?n = "findall_number (get_text item)"
  have keep: "\<And>s. parse_dividend_info s m ''pe_ratio_ttm'' = m ''pe_ratio_ttm''"
    by (rule parse_dividend_info_keeps) simp_all
  from assms have c: "(py_in ''pe ratio'' ?text \<or> py_in ''p/e ratio'' ?text) \<and>
      (py_in ''ttm'' ?text \<or> py_in ''trailing'' ?text) \<and> ?n \<noteq> []"
    by (auto simp: quote_stats_item_def Let_def keep split: if_splits)
  with assms(1) have "of_option (clean_numeric (last ?n)) = PNum x"
    by (auto simp: quote_stats_item_def Let_def)
  moreover from c have "last ?n \<in> set (findall number_token (get_text item))"
    by (simp add: findall_number_def)
  then have "clean_numeric (last ?n) = Some (token_value (last ?n))"
    by (intro number_lang_clean findall_number_lang)
  ultimately have "x = token_value (last ?n)" by simp
  then show ?thesis by (simp add: token_value_not_negative)
qed

text \<open>
  Claim C4 at the item \<^verbatim>\<open>PE Ratio (TTM) -12.5\<close>. The pattern \<^verbatim>\<open>\d+\.?\d*\<close> has no sign, the
  only token is \<^verbatim>\<open>12.5\<close>, and the quote-statistics locator stores 12.5; the table locator,
  which cleans the whole cell, stores -12.5 for the same value.
\<close>

theorem quote_stats_item_drops_minus_sign:
  "get_text negative_pe_item = ''PE Ratio (TTM) -12.5'' \<and>
   findall_number (get_text negative_pe_item) = [''12.5''] \<and>
   quote_stats_item Map.empty negative_pe_item ''pe_ratio_ttm'' = Some (PNum (25 / 2)) \<and>
   table_row Map.empty (row_of [''PE Ratio (TTM)'', ''-12.5'']) ''pe_ratio_ttm'' = Some (PNum (- (25 / 2)))"
  by (simp add: locator_eval dom_eval re_eval str_eval float_eval)

section \<open>Properties of the extraction pipeline\<close>

lemma get_key_metrics_summary_failed:
  assumes "fetch (summary_url symbol) = Response s1 d1" "s1 \<noteq> 200"
  shows "get_key_metrics fetch symbol =
     ((initial_metrics symbol)
        (''error'' \<mapsto> PStr (''Failed to retrieve summary data: Status code '' @ str_int s1)))
       ++ get_growth_estimates fetch symbol"
  using assms by (simp add: get_key_metrics_def get_summary_metrics_def Let_def)

lemma get_growth_estimates_failed:
  assumes "fetch (analysis_url symbol) = Response s2 d2" "s2 \<noteq> 200"
  shows "get_growth_estimates fetch symbol =
     [''error'' \<mapsto> PStr (''Failed to retrieve analysis data: Status code '' @ str_int s2)]"
  using assms by (simp add: get_growth_estimates_def)

text \<open>
  Claim C2. \<^verbatim>\<open>get_key_metrics\<close> returns a dictionary in every case: each phase catches the
  exceptions of its body. When both fetches answer with a status other than 200, the
  record is the initial one with the error of the analysis phase: the five metrics are
  \<^verbatim>\<open>None\<close> and the error is a non-empty string. A status other than 200 in the summary
  phase leaves the analysis phase to run, whose growth estimate reaches the record, and a
  status other than 200 in the analysis phase leaves the record of the summary phase in
  place but for the error.
\<close>

theorem get_key_metrics_failed_fetches:
  "(fetch (summary_url symbol) = Response s1 d1 \<and> s1 \<noteq> 200 \<and>
    fetch (analysis_url symbol) = Response s2 d2 \<and> s2 \<noteq> 200 \<longrightarrow>
      get_key_metrics fetch symbol =
        (initial_metrics symbol)
          (''error'' \<mapsto> PStr (''Failed to retrieve analysis data: Status code '' @ str_int s2)) \<and>
      (\<forall>key \<in> set numeric_keys. get_key_metrics fetch symbol key = Some PNone) \<and>
      (\<exists>e. get_key_metrics fetch symbol ''error'' = Some (PStr e) \<and> 0 < length e)) \<and>
   (fetch (summary_url symbol) = Response s1 d1 \<and> s1 \<noteq> 200 \<longrightarrow>
      get_key_metrics fetch symbol =
        ((initial_metrics symbol)
           (''error'' \<mapsto> PStr (''Failed to retrieve summary data: Status code '' @ str_int s1)))
          ++ get_growth_estimates fetch symbol) \<and>
   (fetch (summary_url symbol) = Response s1 d1 \<and> s1 \<noteq> 200 \<and>
    fetch (analysis_url symbol) = Response 200 d2 \<and>
    extract_growth_estimate_table d2 symbol = Some g \<longrightarrow>
      get_key_metrics fetch symbol ''growth_estimate_next_year'' = Some (PNum g)) \<and>
   (fetch (analysis_url symbol) = Response s2 d2 \<and> s2 \<noteq> 200 \<longrightarrow>
      get_key_metrics fetch symbol =
        (initial_metrics symbol ++ get_summary_metrics fetch symbol)
          (''error'' \<mapsto> PStr (''Failed to retrieve analysis data: Status code '' @ str_int s2)))"
proof (intro conjI impI)
  assume a: "fetch (summary_url symbol) = Response s1 d1 \<and> s1 \<noteq> 200 \<and>
    fetch (analysis_url symbol) = Response s2 d2 \<and> s2 \<noteq> 200"
  then have e: "get_key_metrics fetch symbol =
        (initial_metrics symbol)
          (''error'' \<mapsto> PStr (''Failed to retrieve analysis data: Status code '' @ str_int s2))"
    by (simp add: get_key_metrics_summary_failed[of fetch symbol s1 d1]
          get_growth_estimates_failed[of fetch symbol s2 d2])
  show "get_key_metrics fetch symbol =
        (initial_metrics symbol)
          (''error'' \<mapsto> PStr (''Failed to retrieve analysis data: Status code '' @ str_int s2))"
    by (rule e)
  show "\<forall>key \<in> set numeric_keys. get_key_metrics fetch symbol key = Some PNone"
    unfolding e by (simp add: numeric_keys_def initial_metrics_def)
  show "\<exists>e. get_key_metrics fetch symbol ''error'' = Some (PStr e) \<and> 0 < length e"
    unfolding e by simp
next
  assume "fetch (summary_url symbol) = Response s1 d1 \<and> s1 \<noteq> 200"
  then show "get_key_metrics fetch symbol =
        ((initial_metrics symbol)
           (''error'' \<mapsto> PStr (''Failed to retrieve summary data: Status code '' @ str_int s1)))
          ++ get_growth_estimates fetch symbol"
    using get_key_metrics_summary_failed by blast
next
  assume a: "fetch (summary_url symbol) = Response s1 d1 \<and> s1 \<noteq> 200 \<and>
    fetch (analysis_url symbol) = Response 200 d2 \<and>
    extract_growth_estimate_table d2 symbol = Some g"
  then have "get_growth_estimates fetch symbol = [''growth_estimate_next_year'' \<mapsto> PNum g]"
    by (simp add: get_growth_estimates_def)
  with a show "get_key_metrics fetch symbol ''growth_estimate_next_year'' = Some (PNum g)"
    by (simp add: get_key_metrics_summary_failed[of fetch symbol s1 d1])
next
  assume "fetch (analysis_url symbol) = Response s2 d2 \<and> s2 \<noteq> 200"
  then show "get_key_metrics fetch symbol =
        (initial_metrics symbol ++ get_summary_metrics fetch symbol)
          (''error'' \<mapsto> PStr (''Failed to retrieve analysis data: Status code '' @ str_int s2))"
    by (simp add: get_key_metrics_def Let_def get_growth_estimates_failed[of fetch symbol s2 d2])
qed

lemmas pipeline_eval = summary_url_def analysis_url_def quote_def hex_digit_def
  fetch_404_def fetch_analysis_only_def growth_page_example_def
  extract_growth_estimate_table_def growth_method1_def growth_method2_def growth_method3_def

lemma str_int_404: "str_int 404 = ''404''"
  by (simp add: str_int_def str_nat.simps hex_digit_def)

theorem get_key_metrics_failed_fetches_witness:
  "get_key_metrics fetch_404 ''aapl'' ''error''
     = Some (PStr ''Failed to retrieve analysis data: Status code 404'') \<and>
   get_key_metrics fetch_404 ''aapl'' ''current_price'' = Some PNone \<and>
   get_key_metrics fetch_404 ''aapl'' ''growth_estimate_next_year'' = Some PNone \<and>
   fetch_analysis_only (summary_url ''aapl'') = Response 500 (document []) \<and>
   fetch_analysis_only (analysis_url ''aapl'') = Response 200 growth_page_example \<and>
   extract_growth_estimate_table growth_page_example ''aapl'' = Some (42 / 5) \<and>
   get_key_metrics fetch_analysis_only ''aapl'' ''growth_estimate_next_year'' = Some (PNum (42 / 5))"
proof -
  have s: "fetch_404 (summary_url ''aapl'') = Response 404 (document [])"
    and a: "fetch_404 (analysis_url ''aapl'') = Response 404 (document [])"
    by (simp_all add: fetch_404_def)
  have n: "(404::int) \<noteq> 200" "(500::int) \<noteq> 200" by simp_all
  note t = get_key_metrics_failed_fetches[of fetch_404 "''aapl''" 404 "document []" 404 "document []"]
  from t[THEN conjunct1] s a n
  have 1: "get_key_metrics fetch_404 ''aapl'' =
        (initial_metrics ''aapl'')
          (''error'' \<mapsto> PStr (''Failed to retrieve analysis data: Status code '' @ str_int 404))"
    by blast
  have e: "get_key_metrics fetch_404 ''aapl'' ''error''
     = Some (PStr ''Failed to retrieve analysis data: Status code 404'')"
    unfolding 1 by (simp add: str_int_404)
  have p: "get_key_metrics fetch_404 ''aapl'' ''current_price'' = Some PNone"
    "get_key_metrics fetch_404 ''aapl'' ''growth_estimate_next_year'' = Some PNone"
    unfolding 1 by (simp_all add: initial_metrics_def)
  have u1: "fetch_analysis_only (summary_url ''aapl'') = Response 500 (document [])"
    by (simp add: pipeline_eval str_eval)
  have u2: "fetch_analysis_only (analysis_url ''aapl'') = Response 200 growth_page_example"
    by (simp add: pipeline_eval str_eval)
  have g: "extract_growth_estimate_table growth_page_example ''aapl'' = Some (42 / 5)"
    by (simp add: pipeline_eval growth_eval dom_eval str_eval float_eval)
  note t2 = get_key_metrics_failed_fetches[of fetch_analysis_only "''aapl''" 500 "document []" _
              growth_page_example "42 / 5"]
  from t2[THEN conjunct2, THEN conjunct2, THEN conjunct1] u1 u2 g n
  have 2: "get_key_metrics fetch_analysis_only ''aapl'' ''growth_estimate_next_year''
             = Some (PNum (42 / 5))" by blast
  from e p u1 u2 g 2 show ?thesis by (intro conjI)
qed

end
